theory Spec2Isabelle
  imports Complex_Main "HOL-Library.Sublist"
begin

section \<open>Python values, dictionaries and strings\<close>

text \<open>
  The pipeline passes Python dictionaries around: stage payloads, the result ledger and the
  column mapping. A dictionary is modelled as an association list with unique keys in
  insertion order, which is what a Python \<^verbatim>\<open>dict\<close> is. Values are the JSON-like
  values that the payloads hold.
\<close>

datatype pyval = PNone | PBool bool | PInt int | PReal real | PStr string
  | PList "pyval list" | PDict "(string \<times> pyval) list"

type_synonym payload = "(string \<times> pyval) list"

type_synonym ledger = "(string \<times> payload) list"

type_synonym column_mappings = "(string \<times> string) list"

text \<open>\<^verbatim>\<open>d[k] = v\<close>: an existing key keeps its position, a new key goes last.\<close>

fun dict_set :: "('k \<times> 'v) list \<Rightarrow> 'k \<Rightarrow> 'v \<Rightarrow> ('k \<times> 'v) list" where
  "dict_set [] k v = [(k, v)]"
| "dict_set ((k', v') # d) k v =
     (if k' = k then (k, v) # d else (k', v') # dict_set d k v)"

text \<open>\<^verbatim>\<open>d.get(k)\<close>, \<^verbatim>\<open>k in d\<close>, \<^verbatim>\<open>list(d.keys())\<close> and \<^verbatim>\<open>list(d.values())\<close>.\<close>

definition dict_get :: "('k \<times> 'v) list \<Rightarrow> 'k \<Rightarrow> 'v option" where
  "dict_get d k = map_of d k"

definition dict_has :: "('k \<times> 'v) list \<Rightarrow> 'k \<Rightarrow> bool" where
  "dict_has d k = (map_of d k \<noteq> None)"

definition dict_keys :: "('k \<times> 'v) list \<Rightarrow> 'k list" where
  "dict_keys d = map fst d"

definition dict_values :: "('k \<times> 'v) list \<Rightarrow> 'v list" where
  "dict_values d = map snd d"

text \<open>
  \<^verbatim>\<open>pandas.unique\<close>: the distinct values in order of first appearance.
\<close>

definition unique :: "'a list \<Rightarrow> 'a list" where
  "unique xs = rev (remdups (rev xs))"

text \<open>
  \<^verbatim>\<open>raw_step.strip().lower()\<close> on ASCII text: \<^verbatim>\<open>strip\<close> removes the leading and
  trailing characters for which \<^verbatim>\<open>str.isspace\<close> holds (codes 9 to 13 and 28 to 32),
  \<^verbatim>\<open>lower\<close> maps \<^verbatim>\<open>A\<close>..\<^verbatim>\<open>Z\<close> to \<^verbatim>\<open>a\<close>..\<^verbatim>\<open>z\<close>.
\<close>

definition isspace :: "char \<Rightarrow> bool" where
  "isspace c = (let n = (of_char c :: nat) in (9 \<le> n \<and> n \<le> 13) \<or> (28 \<le> n \<and> n \<le> 32))"

definition strip :: "string \<Rightarrow> string" where
  "strip s = rev (dropWhile isspace (rev (dropWhile isspace s)))"

definition lower_char :: "char \<Rightarrow> char" where
  "lower_char c =
     (case map_of (zip ''ABCDEFGHIJKLMNOPQRSTUVWXYZ'' ''abcdefghijklmnopqrstuvwxyz'') c of
        Some l \<Rightarrow> l
      | None \<Rightarrow> c)"

definition lower :: "string \<Rightarrow> string" where
  "lower s = map lower_char s"

text \<open>\<^verbatim>\<open>str(n)\<close> for a count inside an f-string.\<close>

definition digit_char :: "nat \<Rightarrow> char" where
  "digit_char d = char_of (48 + d)"

function str_nat :: "nat \<Rightarrow> string" where
  "str_nat n = (if n < 10 then [digit_char n] else str_nat (n div 10) @ [digit_char (n mod 10)])"
  by pat_completeness auto
termination
  by (relation "measure id") auto

text \<open>\<^verbatim>\<open>str(Path(plots_dir) / name)\<close> for a relative directory without trailing slash.\<close>

definition path_join :: "string \<Rightarrow> string \<Rightarrow> string" where
  "path_join dir name = dir @ ''/'' @ name"

section \<open>Data frames\<close>

text \<open>
  A \<^verbatim>\<open>pandas.DataFrame\<close>: the column labels and the rows, each row with its index label.
  The beta matrix is a frame of numbers (rows are probes, columns are samples); the sample
  metadata table (\<^verbatim>\<open>targets\<close>) is a frame whose cells are \<open>None\<close> where pandas holds NaN.
  Index labels may repeat, as pandas allows; column labels are unique in every table that
  \<^verbatim>\<open>read_csv\<close> produces, so a row is a function of the column label.
\<close>

record 'a frame =
  columns :: "string list"
  rows :: "(string \<times> (string \<Rightarrow> 'a)) list"

type_synonym betas = "real frame"

type_synonym targets = "string option frame"

definition index :: "'a frame \<Rightarrow> string list" where
  "index df = map fst (rows df)"

text \<open>\<^verbatim>\<open>df.loc[labels, col]\<close>: for each label in turn, every row that carries it.\<close>

definition loc_col :: "'a frame \<Rightarrow> string list \<Rightarrow> string \<Rightarrow> (string \<times> 'a) list" where
  "loc_col df labels col =
     concat (map (\<lambda>s. map (\<lambda>r. (fst r, snd r col)) (filter (\<lambda>r. fst r = s) (rows df))) labels)"

text \<open>\<^verbatim>\<open>series.dropna()\<close>.\<close>

definition dropna :: "(string \<times> 'a option) list \<Rightarrow> (string \<times> 'a option) list" where
  "dropna ser = filter (\<lambda>lv. snd lv \<noteq> None) ser"

section \<open>Floating-point results of numpy\<close>

text \<open>
  Beta values are modelled as real numbers. \<^verbatim>\<open>np.log2\<close> and the array division do not
  raise: they return an infinity or NaN, which the model keeps apart from the finite
  results.
\<close>

datatype npfloat = Finite real | PosInf | NegInf | NaN

definition np_divide :: "real \<Rightarrow> real \<Rightarrow> npfloat" where
  "np_divide x y =
     (if y \<noteq> 0 then Finite (x / y)
      else if 0 < x then PosInf else if x < 0 then NegInf else NaN)"

fun np_log2 :: "npfloat \<Rightarrow> npfloat" where
  "np_log2 (Finite x) = (if 0 < x then Finite (log 2 x) else if x = 0 then NegInf else NaN)"
| "np_log2 PosInf = PosInf"
| "np_log2 NegInf = NaN"
| "np_log2 NaN = NaN"

definition isfinite :: "npfloat \<Rightarrow> bool" where
  "isfinite v = (case v of Finite _ \<Rightarrow> True | _ \<Rightarrow> False)"

text \<open>\<^verbatim>\<open>np.clip(x, lo, hi)\<close> is \<^verbatim>\<open>minimum(maximum(x, lo), hi)\<close>.\<close>

definition clip :: "real \<Rightarrow> real \<Rightarrow> real \<Rightarrow> real" where
  "clip x lo hi = min (max x lo) hi"

section \<open>The beta to M-value transforms\<close>

text \<open>
  \<^verbatim>\<open>preprocessing._beta_to_m_values\<close> (used by \<^verbatim>\<open>combat_normalization\<close>), one matrix
  entry at a time.
\<close>

definition beta_to_m_values :: "real \<Rightarrow> npfloat" where
  "beta_to_m_values beta =
     (let clipped = clip beta (1 / 1000) (999 / 1000) in np_log2 (np_divide clipped (1 - clipped)))"

text \<open>\<^verbatim>\<open>preprocessing._m_values_to_beta\<close>, one entry at a time.\<close>

definition m_values_to_beta :: "real \<Rightarrow> real" where
  "m_values_to_beta m = clip (2 powr m / (1 + 2 powr m)) 0 1"

text \<open>
  The M-value line of \<^verbatim>\<open>analysis.differential_analysis\<close>:
  \<^verbatim>\<open>np.log2(np.clip(b, 0.001, 0.999) / (1 - np.clip(b, 0.001, 0.999)))\<close>.
\<close>

definition m_values_differential :: "real \<Rightarrow> npfloat" where
  "m_values_differential beta =
     np_log2 (np_divide (clip beta (1 / 1000) (999 / 1000)) (1 - clip beta (1 / 1000) (999 / 1000)))"

text \<open>
  The M-value line of \<^verbatim>\<open>analysis.perform_pca\<close>:
  \<^verbatim>\<open>np.log2(betas_m / (1 - betas_m + 1e-6))\<close>.
\<close>

definition m_values_pca :: "real \<Rightarrow> npfloat" where
  "m_values_pca beta = np_log2 (np_divide beta (1 - beta + 1 / 1000000))"

section \<open>The FDR adjustment\<close>

text \<open>
  \<^verbatim>\<open>scipy.stats.rankdata\<close> with its default method: tied values share the average of
  the ranks they span.
\<close>

definition rankdata :: "real list \<Rightarrow> real list" where
  "rankdata ps =
     map (\<lambda>p. real (length (filter (\<lambda>q. q < p) ps))
              + (real (length (filter (\<lambda>q. q = p) ps)) + 1) / 2) ps"

text \<open>
  The three lines under \<^verbatim>\<open># BH FDR correction\<close> in \<^verbatim>\<open>differential_analysis\<close>:
  \<^verbatim>\<open>n = len(p_values); ranks = rankdata(p_values); fdr = np.minimum(p_values * n / ranks, 1.0)\<close>.
\<close>

definition bh_fdr :: "real list \<Rightarrow> real list" where
  "bh_fdr p_values =
     (let n = length p_values; ranks = rankdata p_values
      in map (\<lambda>pr. min (fst pr * real n / snd pr) 1) (zip p_values ranks))"

section \<open>Calls that leave the repository\<close>

text \<open>
  The stages call R (through rpy2), scipy, scikit-learn and matplotlib, and they read and
  write files. These calls are parameters of the model: each one either raises, which is
  the text of the exception (\<open>Inl\<close>, or \<open>Some\<close> for a call without a result), or returns.
\<close>

record read_result =
  r_betas :: betas
  r_detP :: betas
  r_targets :: "targets option"
  r_n_probes :: nat
  r_n_samples :: nat

record qc_result =
  betas_qc :: betas
  n_probes_after_qc :: nat
  n_samples_after_qc :: nat
  sex_cpgs_removed :: bool

record combat_result =
  betas_combat :: betas
  n_batches :: nat
  batches :: "pyval list"

record externals =
  ext_read_idat_files :: "column_mappings \<Rightarrow> string + read_result"
  ext_quality_control :: "betas \<Rightarrow> betas \<Rightarrow> string + qc_result"
  ext_combat_normalization :: "betas \<Rightarrow> targets \<Rightarrow> string \<Rightarrow> string + combat_result"
  ext_basic_statistics :: "betas \<Rightarrow> targets option \<Rightarrow> string + payload"
  ext_perform_pca :: "betas \<Rightarrow> targets option \<Rightarrow> column_mappings \<Rightarrow> string \<Rightarrow> string + payload"
  ext_create_heatmap :: "betas \<Rightarrow> targets option \<Rightarrow> string \<Rightarrow> string + payload"
  ext_ttest_ind :: "real list list \<Rightarrow> real list list \<Rightarrow> string + (real list \<times> real list)"
  ext_mkdir :: "string \<Rightarrow> string option"
  ext_savefig :: "string \<Rightarrow> string option"
  ext_load_samplesheet :: "string + targets"
  ext_write_summary :: "string list \<Rightarrow> ledger \<Rightarrow> string option"

section \<open>Differential analysis\<close>

text \<open>\<^verbatim>\<open>common = [s for s in betas.columns if s in targets.index]\<close>.\<close>

definition common_samples :: "betas \<Rightarrow> targets \<Rightarrow> string list" where
  "common_samples betas targets = filter (\<lambda>s. s \<in> set (index targets)) (columns betas)"

text \<open>
  \<^verbatim>\<open>vals = targets.loc[common, col].dropna().unique(); len(vals) == 2\<close>: the column has
  exactly two distinct values, missing ones apart, on the matched samples.
\<close>

definition group_values :: "targets \<Rightarrow> string list \<Rightarrow> string \<Rightarrow> string option list" where
  "group_values targets common col = unique (map snd (dropna (loc_col targets common col)))"

definition two_valued :: "targets \<Rightarrow> string list \<Rightarrow> string \<Rightarrow> bool" where
  "two_valued targets common col = (length (group_values targets common col) = 2)"

text \<open>
  \<^verbatim>\<open>analysis._select_group_column\<close>. Both loops return at the first column that
  qualifies, which is \<open>find\<close>; \<^verbatim>\<open>if col and col in targets.columns\<close> skips an absent or
  empty candidate and one that names no column.
\<close>

definition candidate_ok :: "targets \<Rightarrow> string list \<Rightarrow> string option \<Rightarrow> bool" where
  "candidate_ok targets common c =
     (case c of None \<Rightarrow> False
      | Some col \<Rightarrow> col \<noteq> [] \<and> col \<in> set (columns targets) \<and> two_valued targets common col)"

definition select_group_column :: "betas \<Rightarrow> targets \<Rightarrow> column_mappings \<Rightarrow> string option" where
  "select_group_column betas targets column_mappings =
     (let candidates = [dict_get column_mappings ''genotype'', dict_get column_mappings ''tissue'']
                       @ map Some (dict_values column_mappings);
          common = common_samples betas targets
      in if common = [] then None
         else (case find (candidate_ok targets common) candidates of
                 Some c \<Rightarrow> c
               | None \<Rightarrow> find (two_valued targets common) (columns targets)))"

text \<open>\<^verbatim>\<open>str(v)\<close> of a metadata cell; pandas prints a missing cell as \<^verbatim>\<open>nan\<close>.\<close>

definition str_cell :: "string option \<Rightarrow> string" where
  "str_cell v = (case v of None \<Rightarrow> ''nan'' | Some s \<Rightarrow> s)"

definition mean :: "real list \<Rightarrow> real" where
  "mean xs = sum_list xs / real (length xs)"

fun finite_part :: "npfloat \<Rightarrow> real" where
  "finite_part (Finite x) = x"
| "finite_part _ = 0"

text \<open>One row of \<^verbatim>\<open>dmp_df\<close>, and its dictionary in \<^verbatim>\<open>to_dict("records")\<close>.\<close>

record dmp =
  probe :: string
  log2_fc :: real
  t_stat :: real
  p_value :: real
  fdr :: real

definition dmp_record :: "dmp \<Rightarrow> pyval" where
  "dmp_record d = PDict [(''probe'', PStr (probe d)), (''log2_fc'', PReal (log2_fc d)),
     (''t_stat'', PReal (t_stat d)), (''p_value'', PReal (p_value d)), (''fdr'', PReal (fdr d))]"

definition error_payload :: "string \<Rightarrow> payload" where
  "error_payload msg = [(''error'', PStr msg)]"

definition quote :: string where
  "quote = [char_of (39 :: nat)]"

text \<open>
  \<^verbatim>\<open>analysis.differential_analysis\<close>. The early returns are error payloads. The part
  after them computes on the matched columns; \<^verbatim>\<open>ttest_ind\<close> is scipy's, and the data
  frame constructor raises when the arrays it is given differ in length. The sort by
  \<^verbatim>\<open>fdr\<close> is modelled by a stable sort (pandas leaves the order of equal keys open).
\<close>

definition differential_analysis ::
  "externals \<Rightarrow> betas \<Rightarrow> targets option \<Rightarrow> column_mappings \<Rightarrow> real \<Rightarrow> nat \<Rightarrow> string + payload" where
  "differential_analysis ext betas targets column_mappings fdr_threshold top_n =
     (case targets of
        None \<Rightarrow> Inr (error_payload ''No targets (samplesheet) provided.'')
      | Some tg \<Rightarrow>
         (case select_group_column betas tg column_mappings of
            None \<Rightarrow> Inr (error_payload
              (''Could not find a suitable two-group column in targets. Ensure ''
               @ quote @ ''genotype'' @ quote @ '' or '' @ quote @ ''tissue'' @ quote
               @ '' is mapped and has exactly 2 unique values.''))
          | Some group_col \<Rightarrow>
             (let common = common_samples betas tg in
              if length common < 4 then
                Inr (error_payload (''Too few matched samples ('' @ str_nat (length common)
                                    @ '') for differential analysis.''))
              else
                (let groups = loc_col tg common group_col;
                     unique_groups = unique (map snd groups) in
                 if length unique_groups \<noteq> 2 then
                   Inr (error_payload (''Column '' @ quote @ group_col @ quote @ '' has ''
                          @ str_nat (length unique_groups) @ '' unique values; ''
                          @ ''exactly 2 are required.''))
                 else
                   (let u1 = unique_groups ! 0; u2 = unique_groups ! 1;
                        g1_name = str_cell u1; g2_name = str_cell u2;
                        g1_samples = map fst (filter (\<lambda>lv. snd lv \<noteq> None \<and> snd lv = u1) groups);
                        g2_samples = map fst (filter (\<lambda>lv. snd lv \<noteq> None \<and> snd lv = u2) groups);
                        m_values = (\<lambda>r s. finite_part (m_values_differential (snd r s)));
                        g1_m = map (\<lambda>s. map (\<lambda>r. m_values r s) (rows betas)) g1_samples;
                        g2_m = map (\<lambda>s. map (\<lambda>r. m_values r s) (rows betas)) g2_samples
                    in case ext_ttest_ind ext g1_m g2_m of
                         Inl e \<Rightarrow> Inl e
                       | Inr (t_stats, p_values) \<Rightarrow>
                          (let fdrs = bh_fdr p_values;
                               fc = map (\<lambda>r. mean (map (m_values r) g1_samples)
                                              - mean (map (m_values r) g2_samples)) (rows betas)
                           in if length t_stats \<noteq> length (rows betas)
                                 \<or> length p_values \<noteq> length (rows betas) then
                                Inl ''All arrays must be of the same length''
                              else
                                (let dmp_df = sort_key fdr
                                       (map (\<lambda>i. \<lparr>probe = index betas ! i, log2_fc = fc ! i,
                                                   t_stat = t_stats ! i, p_value = p_values ! i,
                                                   fdr = fdrs ! i\<rparr>) [0..<length (rows betas)]);
                                     sig = filter (\<lambda>d. fdr d < fdr_threshold) dmp_df
                                 in Inr [(''comparison'', PStr (g1_name @ '' vs '' @ g2_name)),
                                         (''group_column'', PStr group_col),
                                         (''groups'', PList [PStr g1_name, PStr g2_name]),
                                         (''group_sizes'', PDict (dict_set
                                             [(g1_name, PInt (int (length g1_samples)))]
                                             g2_name (PInt (int (length g2_samples))))),
                                         (''n_probes_tested'', PInt (int (length dmp_df))),
                                         (''n_significant_dmps'', PInt (int (length sig))),
                                         (''fdr_threshold'', PReal fdr_threshold),
                                         (''top_dmps'', PList (map dmp_record (take top_n dmp_df)))])))))))"

section \<open>Volcano plot\<close>

text \<open>
  \<^verbatim>\<open>_colour\<close>, the local function of \<^verbatim>\<open>create_volcano_plot\<close>, with the two
  thresholds of its closure as arguments and the row given by its \<^verbatim>\<open>fdr\<close> and
  \<^verbatim>\<open>log2_fc\<close>.
\<close>

definition colour :: "real \<Rightarrow> real \<Rightarrow> real \<times> real \<Rightarrow> string" where
  "colour fdr_threshold fc_threshold row =
     (if fst row < fdr_threshold \<and> fc_threshold \<le> \<bar>snd row\<bar> then ''#E8433A''
      else if fst row < fdr_threshold then ''#2560E0''
      else ''#AAAAAA'')"

text \<open>
  The rows of \<^verbatim>\<open>pd.DataFrame(diff_results.get("top_dmps", []))\<close> and the numeric
  columns the function reads from them. A row without a numeric \<^verbatim>\<open>fdr\<close>,
  \<^verbatim>\<open>log2_fc\<close> or \<^verbatim>\<open>p_value\<close> does not come out of \<^verbatim>\<open>differential_analysis\<close>; on such a
  row the column access is modelled as the \<^verbatim>\<open>KeyError\<close> it raises when the column is
  absent.
\<close>

definition top_dmps_rows :: "payload \<Rightarrow> pyval list" where
  "top_dmps_rows diff_results =
     (case dict_get diff_results ''top_dmps'' of Some (PList rs) \<Rightarrow> rs | _ \<Rightarrow> [])"

fun row_field :: "pyval \<Rightarrow> string \<Rightarrow> real option" where
  "row_field (PDict r) k = (case map_of r k of Some (PReal x) \<Rightarrow> Some x | _ \<Rightarrow> None)"
| "row_field _ k = None"

definition row_ok :: "pyval \<Rightarrow> bool" where
  "row_ok r = (row_field r ''fdr'' \<noteq> None \<and> row_field r ''log2_fc'' \<noteq> None
               \<and> row_field r ''p_value'' \<noteq> None)"

definition row_values :: "pyval \<Rightarrow> real \<times> real" where
  "row_values r = (case (row_field r ''fdr'', row_field r ''log2_fc'') of
                     (Some f, Some c) \<Rightarrow> (f, c) | _ \<Rightarrow> (0, 0))"

text \<open>
  \<^verbatim>\<open>analysis.create_volcano_plot\<close>. With no \<^verbatim>\<open>diff_results\<close> it runs
  \<^verbatim>\<open>differential_analysis\<close> with that function's defaults (threshold 0.05, 200 rows).
\<close>

definition create_volcano_plot ::
  "externals \<Rightarrow> betas \<Rightarrow> targets option \<Rightarrow> payload option \<Rightarrow> column_mappings \<Rightarrow> string
     \<Rightarrow> string \<Rightarrow> real \<Rightarrow> real \<Rightarrow> string + payload" where
  "create_volcano_plot ext betas targets diff_results column_mappings step_name plots_dir
       fc_threshold fdr_threshold =
     (case ext_mkdir ext plots_dir of
        Some e \<Rightarrow> Inl e
      | None \<Rightarrow>
         (case (case diff_results of
                  None \<Rightarrow> differential_analysis ext betas targets column_mappings (5 / 100) 200
                | Some d \<Rightarrow> Inr d) of
            Inl e \<Rightarrow> Inl e
          | Inr dr \<Rightarrow>
             if dict_has dr ''error'' then Inr dr
             else
               (let dmps = top_dmps_rows dr in
                if dmps = [] then Inr (error_payload ''No DMPs available for volcano plot.'')
                else if \<not> list_all row_ok dmps then Inl ''KeyError''
                else
                  (let colours = map (\<lambda>r. colour fdr_threshold fc_threshold (row_values r)) dmps;
                       comparison = (case dict_get dr ''comparison'' of
                                       Some c \<Rightarrow> c | None \<Rightarrow> PStr []);
                       plot_path = path_join plots_dir (step_name @ ''.png'')
                   in case ext_savefig ext plot_path of
                        Some e \<Rightarrow> Inl e
                      | None \<Rightarrow>
                         (let n_sig_fc = length (filter (\<lambda>c. c = ''#E8433A'') colours)
                          in Inr [(''comparison'', comparison),
                                  (''n_highlighted_dmps'', PInt (int n_sig_fc)),
                                  (''fc_threshold'', PReal fc_threshold),
                                  (''fdr_threshold'', PReal fdr_threshold),
                                  (''plots'', PDict [(''volcano'', PStr plot_path)])])))))"

section \<open>Principal component analysis: the counts\<close>

text \<open>\<^verbatim>\<open>needle in haystack\<close> on strings.\<close>

fun is_substring :: "string \<Rightarrow> string \<Rightarrow> bool" where
  "is_substring xs [] = (xs = [])"
| "is_substring xs (y # ys) = (prefix xs (y # ys) \<or> is_substring xs ys)"

text \<open>
  \<^verbatim>\<open>analysis._find_target_row\<close>: an exact index match, else the first index entry that
  contains the sample name, else the first row with a cell (printed as a string) that
  contains it, column by column.
\<close>

definition find_target_row ::
  "string \<Rightarrow> targets option \<Rightarrow> (string \<times> (string \<Rightarrow> string option)) option" where
  "find_target_row sample_name targets =
     (case targets of
        None \<Rightarrow> None
      | Some tg \<Rightarrow>
         (case find (\<lambda>r. fst r = sample_name) (rows tg) of
            Some r \<Rightarrow> Some r
          | None \<Rightarrow>
             (case find (\<lambda>r. is_substring sample_name (fst r)) (rows tg) of
                Some r \<Rightarrow> Some r
              | None \<Rightarrow>
                 (case find (\<lambda>col. list_ex (\<lambda>r. is_substring sample_name (str_cell (snd r col)))
                                      (rows tg)) (columns tg) of
                    Some col \<Rightarrow> find (\<lambda>r. is_substring sample_name (str_cell (snd r col))) (rows tg)
                  | None \<Rightarrow> None))))"

text \<open>
  The sample loop of \<^verbatim>\<open>perform_pca\<close> with its fallback: the samples with a metadata
  row, or every sample when none has one.
\<close>

definition matched_samples :: "betas \<Rightarrow> targets option \<Rightarrow> string list" where
  "matched_samples betas targets =
     (let matched = filter (\<lambda>s. find_target_row s targets \<noteq> None) (columns betas)
      in if matched = [] then columns betas else matched)"

definition DEFAULT_N_TOP_CPGS :: nat where
  "DEFAULT_N_TOP_CPGS = 10000"

text \<open>\<^verbatim>\<open>actual_top = min(n_top_cpgs, len(probe_vars))\<close>, one variance per probe.\<close>

definition actual_top :: "nat \<Rightarrow> betas \<Rightarrow> nat" where
  "actual_top n_top_cpgs betas = min n_top_cpgs (length (rows betas))"

text \<open>
  \<^verbatim>\<open>coords = PCA().fit_transform(m_scaled)\<close>: scikit-learn's \<^verbatim>\<open>PCA\<close> with
  \<^verbatim>\<open>n_components=None\<close> keeps \<^verbatim>\<open>min(n_samples, n_features)\<close> components, so that is
  the number of columns of \<^verbatim>\<open>coords\<close>.
\<close>

definition pca_coords_columns :: "nat \<Rightarrow> nat \<Rightarrow> nat" where
  "pca_coords_columns n_samples n_features = min n_samples n_features"

text \<open>
  \<^verbatim>\<open>n_components = min(10, coords.shape[1])\<close>, where \<^verbatim>\<open>m_scaled\<close> has one row per
  included sample and one column per selected probe.
\<close>

definition n_components :: "nat \<Rightarrow> betas \<Rightarrow> targets option \<Rightarrow> nat" where
  "n_components n_top_cpgs betas targets =
     min 10 (pca_coords_columns (length (matched_samples betas targets))
                                (actual_top n_top_cpgs betas))"

section \<open>The orchestrator\<close>


text \<open>
  The local variables of \<^verbatim>\<open>MoIRA.run_workflow\<close> that the loop reads and writes: the
  pipeline state and the result ledger.
\<close>

record pstate =
  current_betas :: "betas option"
  current_detP :: "betas option"
  current_targets :: "targets option"
  results :: ledger

text \<open>
  The entry of a plotting stage: the payload without its \<^verbatim>\<open>plots\<close> key, then
  \<^verbatim>\<open>plot_files = list(res.get("plots", {}).values())\<close>, which raises when \<^verbatim>\<open>plots\<close> is
  not a dictionary.
\<close>

definition with_plot_files :: "payload \<Rightarrow> string + payload" where
  "with_plot_files res =
     (let entry = filter (\<lambda>kv. fst kv \<noteq> ''plots'') res in
      case dict_get res ''plots'' of
        None \<Rightarrow> Inr (dict_set entry ''plot_files'' (PList []))
      | Some (PDict d) \<Rightarrow> Inr (dict_set entry ''plot_files'' (PList (dict_values d)))
      | Some _ \<Rightarrow> Inl ''object has no attribute values'')"

text \<open>
  The body of the \<^verbatim>\<open>try\<close> block for one normalized step name: the chain of
  \<^verbatim>\<open>if\<close>/\<^verbatim>\<open>elif\<close> branches in the order of the source. \<open>Inl\<close> is the exception the
  body raises, \<open>Inr\<close> the state it leaves. The payload of \<^verbatim>\<open>read_idat_files\<close> always has
  the key \<^verbatim>\<open>targets\<close>, so \<^verbatim>\<open>res.get("targets", current_targets)\<close> is its value, absent or
  not. The last branch is the unknown step: a warning is logged and nothing changes.
\<close>

definition stage :: "externals \<Rightarrow> column_mappings \<Rightarrow> string \<Rightarrow> string \<Rightarrow> pstate \<Rightarrow> string + pstate" where
  "stage ext column_mappings plots_dir step st =
     (if step = ''read_idat_files'' then
        (case ext_read_idat_files ext column_mappings of
           Inl e \<Rightarrow> Inl e
         | Inr res \<Rightarrow>
            Inr (st\<lparr>current_betas := Some (r_betas res), current_detP := Some (r_detP res),
                    current_targets := r_targets res,
                    results := dict_set (results st) ''read_idat_files''
                      [(''n_probes'', PInt (int (r_n_probes res))),
                       (''n_samples'', PInt (int (r_n_samples res)))]\<rparr>))
      else if step = ''quality_control'' then
        (case (current_betas st, current_detP st) of
           (Some b, Some d) \<Rightarrow>
             (case ext_quality_control ext b d of
                Inl e \<Rightarrow> Inl e
              | Inr res \<Rightarrow>
                 Inr (st\<lparr>current_betas := Some (betas_qc res),
                         results := dict_set (results st) ''quality_control''
                           [(''n_probes_after_qc'', PInt (int (n_probes_after_qc res))),
                            (''n_samples_after_qc'', PInt (int (n_samples_after_qc res))),
                            (''sex_cpgs_removed'', PBool (sex_cpgs_removed res))]\<rparr>))
         | _ \<Rightarrow> Inl ''quality_control requires read_idat_files to run first.'')
      else if step = ''combat_normalization'' then
        (case current_betas st of
           None \<Rightarrow> Inl (''combat_normalization requires read_idat_files ''
                        @ ''(and optionally quality_control) to run first.'')
         | Some b \<Rightarrow>
            (case current_targets st of
               None \<Rightarrow> Inl ''combat_normalization requires targets (samplesheet).''
             | Some tg \<Rightarrow>
                (let batch_col = (case dict_get column_mappings ''batch'' of
                                    Some c \<Rightarrow> c | None \<Rightarrow> ''batch'')
                 in case ext_combat_normalization ext b tg batch_col of
                      Inl e \<Rightarrow> Inl e
                    | Inr res \<Rightarrow>
                       Inr (st\<lparr>current_betas := Some (betas_combat res),
                               results := dict_set (results st) ''combat_normalization''
                                 [(''n_batches'', PInt (int (n_batches res))),
                                  (''batches'', PList (batches res)),
                                  (''batch_column'', PStr batch_col)]\<rparr>))))
      else if step = ''basic_statistics'' then
        (case current_betas st of
           None \<Rightarrow> Inl ''basic_statistics requires beta values.''
         | Some b \<Rightarrow>
            (case ext_basic_statistics ext b (current_targets st) of
               Inl e \<Rightarrow> Inl e
             | Inr res \<Rightarrow> Inr (st\<lparr>results := dict_set (results st) ''basic_statistics'' res\<rparr>)))
      else if step = ''perform_pca'' then
        (case current_betas st of
           None \<Rightarrow> Inl ''perform_pca requires beta values.''
         | Some b \<Rightarrow>
            (case ext_perform_pca ext b (current_targets st) column_mappings plots_dir of
               Inl e \<Rightarrow> Inl e
             | Inr res \<Rightarrow>
                (case with_plot_files res of
                   Inl e \<Rightarrow> Inl e
                 | Inr entry \<Rightarrow> Inr (st\<lparr>results := dict_set (results st) ''perform_pca'' entry\<rparr>))))
      else if step = ''create_heatmap'' then
        (case current_betas st of
           None \<Rightarrow> Inl ''create_heatmap requires beta values.''
         | Some b \<Rightarrow>
            (case ext_create_heatmap ext b (current_targets st) plots_dir of
               Inl e \<Rightarrow> Inl e
             | Inr res \<Rightarrow>
                (case with_plot_files res of
                   Inl e \<Rightarrow> Inl e
                 | Inr entry \<Rightarrow> Inr (st\<lparr>results := dict_set (results st) ''create_heatmap'' entry\<rparr>))))
      else if step = ''differential_analysis'' then
        (case current_betas st of
           None \<Rightarrow> Inl ''differential_analysis requires beta values.''
         | Some b \<Rightarrow>
            (case differential_analysis ext b (current_targets st) column_mappings (5 / 100) 200 of
               Inl e \<Rightarrow> Inl e
             | Inr res \<Rightarrow> Inr (st\<lparr>results := dict_set (results st) ''differential_analysis'' res\<rparr>)))
      else if step = ''create_volcano_plot'' then
        (case current_betas st of
           None \<Rightarrow> Inl ''create_volcano_plot requires beta values.''
         | Some b \<Rightarrow>
            (let diff_results = dict_get (results st) ''differential_analysis''
             in case create_volcano_plot ext b (current_targets st) diff_results column_mappings
                       ''volcano'' plots_dir 1 (5 / 100) of
                  Inl e \<Rightarrow> Inl e
                | Inr res \<Rightarrow>
                   (case with_plot_files res of
                      Inl e \<Rightarrow> Inl e
                    | Inr entry \<Rightarrow>
                       Inr (st\<lparr>results := dict_set (results st) ''create_volcano_plot'' entry\<rparr>))))
      else Inr st)"

text \<open>
  One turn of the loop after the progress call: the \<^verbatim>\<open>try\<close> block and its
  \<^verbatim>\<open>except Exception\<close>, which stores \<^verbatim>\<open>{"error": str(exc)}\<close> under the step name.
\<close>

definition run_step :: "externals \<Rightarrow> column_mappings \<Rightarrow> string \<Rightarrow> pstate \<Rightarrow> string \<Rightarrow> pstate" where
  "run_step ext column_mappings plots_dir st step =
     (case stage ext column_mappings plots_dir step st of
        Inr st' \<Rightarrow> st'
      | Inl e \<Rightarrow> st\<lparr>results := dict_set (results st) step (error_payload e)\<rparr>)"

text \<open>
  The \<^verbatim>\<open>for idx, raw_step in enumerate(workflow_steps, 1)\<close> loop. The progress callback
  is a state transformer on whatever the caller keeps (\<open>'s\<close>); \<open>None\<close> is the absent
  callback.
\<close>

fun workflow_loop ::
  "externals \<Rightarrow> column_mappings \<Rightarrow> string \<Rightarrow> nat \<Rightarrow> (string \<Rightarrow> nat \<Rightarrow> nat \<Rightarrow> 's \<Rightarrow> 's) option
     \<Rightarrow> (nat \<times> string) list \<Rightarrow> pstate \<Rightarrow> 's \<Rightarrow> pstate \<times> 's" where
  "workflow_loop ext cm plots_dir tot on_progress [] st s = (st, s)"
| "workflow_loop ext cm plots_dir tot on_progress ((idx, raw_step) # rest) st s =
     (let step = lower (strip raw_step);
          s' = (case on_progress of None \<Rightarrow> s | Some f \<Rightarrow> f step idx tot s)
      in workflow_loop ext cm plots_dir tot on_progress rest
           (run_step ext cm plots_dir st step) s')"


section \<open>The job record\<close>

datatype job_status = Pending | Running | Completed | Failed

record job =
  status :: job_status
  step :: "string option"
  step_idx :: nat
  total_steps :: nat
  result :: "ledger option"
  error :: "string option"
  user_id :: string
  created_at :: string






section \<open>Vocabulary of the statements\<close>





text \<open>
  A small run to evaluate the definitions on: two samples and two probes are read, quality
  control raises because no sample passes, the statistics stage reports the number of
  probes it was given, the other R and plotting stages are not installed, and the file
  system works.
\<close>

definition example_betas :: betas where
  "example_betas = \<lparr>columns = [''s1'', ''s2''],
                     rows = [(''cg1'', \<lambda>s. 1 / 2), (''cg2'', \<lambda>s. 1 / 4)]\<rparr>"

definition example_ext :: externals where
  "example_ext =
     \<lparr>ext_read_idat_files = (\<lambda>cm. Inr \<lparr>r_betas = example_betas, r_detP = example_betas,
                                        r_targets = None, r_n_probes = 2, r_n_samples = 2\<rparr>),
      ext_quality_control = (\<lambda>b d. Inl ''No samples passed QC''),
      ext_combat_normalization = (\<lambda>b t c. Inl ''R package sva not found.''),
      ext_basic_statistics = (\<lambda>b t. Inr [(''n_probes'', PInt (int (length (rows b))))]),
      ext_perform_pca = (\<lambda>b t cm pd. Inl ''not installed''),
      ext_create_heatmap = (\<lambda>b t pd. Inl ''not installed''),
      ext_ttest_ind = (\<lambda>a b. Inl ''not installed''),
      ext_mkdir = (\<lambda>d. None),
      ext_savefig = (\<lambda>p. None),
      ext_load_samplesheet = Inr \<lparr>columns = [], rows = []\<rparr>,
      ext_write_summary = (\<lambda>ws l. None)\<rparr>"





definition example_diff_blue :: payload where
  "example_diff_blue =
     [(''comparison'', PStr ''WT vs KO''),
      (''top_dmps'', PList
         [dmp_record \<lparr>probe = ''cg1'', log2_fc = 2, t_stat = 9, p_value = 1 / 1000, fdr = 1 / 100\<rparr>,
          dmp_record \<lparr>probe = ''cg2'', log2_fc = 1 / 2, t_stat = 3, p_value = 1 / 100, fdr = 1 / 100\<rparr>])]"

definition example_diff_grey :: payload where
  "example_diff_grey =
     [(''comparison'', PStr ''WT vs KO''),
      (''top_dmps'', PList
         [dmp_record \<lparr>probe = ''cg1'', log2_fc = 2, t_stat = 9, p_value = 1 / 1000, fdr = 1 / 100\<rparr>,
          dmp_record \<lparr>probe = ''cg2'', log2_fc = 1 / 2, t_stat = 3, p_value = 1 / 100, fdr = 1 / 2\<rparr>])]"

text \<open>A beta matrix of three samples and five probes.\<close>

definition sample_values :: "real \<Rightarrow> real \<Rightarrow> real \<Rightarrow> string \<Rightarrow> real" where
  "sample_values a b c s = (if s = ''s1'' then a else if s = ''s2'' then b else c)"

definition example_betas_pca :: betas where
  "example_betas_pca =
     \<lparr>columns = [''s1'', ''s2'', ''s3''],
      rows = [(''cg1'', sample_values (1 / 2) (1 / 3) (1 / 4)),
              (''cg2'', sample_values (1 / 5) (4 / 5) (1 / 2)),
              (''cg3'', sample_values (9 / 10) (1 / 10) (3 / 10)),
              (''cg4'', sample_values (2 / 5) (3 / 5) (7 / 10)),
              (''cg5'', sample_values (1 / 10) (1 / 5) (9 / 10))]\<rparr>"

section \<open>Properties of the transforms\<close>

lemma clip_bounds: "lo \<le> hi \<Longrightarrow> lo \<le> clip x lo hi \<and> clip x lo hi \<le> hi"
  by (simp add: clip_def)

lemma clip_id: "lo \<le> x \<Longrightarrow> x \<le> hi \<Longrightarrow> clip x lo hi = x"
  by (simp add: clip_def)

lemma logit_finite:
  assumes "0 < c" "c < 1"
  shows "np_log2 (np_divide c (1 - c)) = Finite (log 2 (c / (1 - c)))"
  using assms by (simp add: np_divide_def)

lemma logistic_logit:
  assumes "0 < c" "c < 1"
  shows "2 powr (log 2 (c / (1 - c))) / (1 + 2 powr (log 2 (c / (1 - c)))) = c"
proof -
  have pos: "0 < c / (1 - c)" using assms by simp
  have "2 powr (log 2 (c / (1 - c))) = c / (1 - c)" using pos by simp
  moreover have "(c / (1 - c)) / (1 + c / (1 - c)) = c"
    using assms by (simp add: field_simps)
  ultimately show ?thesis by simp
qed

lemma beta_to_m_values_eq:
  "beta_to_m_values beta = Finite (log 2 (clip beta (1/1000) (999/1000) / (1 - clip beta (1/1000) (999/1000))))"
proof -
  have "(1/1000) \<le> clip beta (1/1000) (999/1000) \<and> clip beta (1/1000) (999/1000) \<le> (999/1000)"
    by (rule clip_bounds) simp
  then have "0 < clip beta (1/1000) (999/1000)" "clip beta (1/1000) (999/1000) < 1" by auto
  then show ?thesis unfolding beta_to_m_values_def Let_def by (rule logit_finite)
qed

lemma m_values_to_beta_clipped:
  "m_values_to_beta (log 2 (clip beta (1/1000) (999/1000) / (1 - clip beta (1/1000) (999/1000)))) = clip beta (1/1000) (999/1000)"
proof -
  have b: "(1/1000) \<le> clip beta (1/1000) (999/1000) \<and> clip beta (1/1000) (999/1000) \<le> (999/1000)"
    by (rule clip_bounds) simp
  then have c: "0 < clip beta (1/1000) (999/1000)" "clip beta (1/1000) (999/1000) < 1" by auto
  have "m_values_to_beta (log 2 (clip beta (1/1000) (999/1000) / (1 - clip beta (1/1000) (999/1000))))
        = clip (clip beta (1/1000) (999/1000)) 0 1"
    unfolding m_values_to_beta_def using logistic_logit [OF c] by simp
  also have "\<dots> = clip beta (1/1000) (999/1000)" using c by (simp add: clip_id)
  finally show ?thesis .
qed

text \<open>
  C7, as the code has it. \<^verbatim>\<open>_beta_to_m_values\<close> clips beta into [0.001, 0.999] before
  the logarithm, so the M-value is finite for every beta, and \<^verbatim>\<open>_m_values_to_beta\<close> of
  that M-value is the clipped beta: it lies in [0, 1], and it is beta itself exactly when
  beta lies in [0.001, 0.999] (in real arithmetic, without rounding).
\<close>

theorem beta_round_trip:
  "\<exists>m. beta_to_m_values beta = Finite m
       \<and> m_values_to_beta m = clip beta (1/1000) (999/1000)
       \<and> 0 \<le> m_values_to_beta m \<and> m_values_to_beta m \<le> 1
       \<and> ((1/1000) \<le> beta \<and> beta \<le> (999/1000) \<longrightarrow> m_values_to_beta m = beta)"
proof -
  let ?m = "log 2 (clip beta (1/1000) (999/1000) / (1 - clip beta (1/1000) (999/1000)))"
  have 1: "beta_to_m_values beta = Finite ?m" by (rule beta_to_m_values_eq)
  have 2: "m_values_to_beta ?m = clip beta (1/1000) (999/1000)" by (rule m_values_to_beta_clipped)
  have 3: "0 \<le> m_values_to_beta ?m \<and> m_values_to_beta ?m \<le> 1"
    unfolding m_values_to_beta_def using clip_bounds [of 0 1] by simp
  have 4: "(1/1000) \<le> beta \<and> beta \<le> (999/1000) \<longrightarrow> m_values_to_beta ?m = beta"
    using 2 clip_id [of "1/1000" beta "999/1000"] by auto
  from 1 2 3 4 show ?thesis by blast
qed

text \<open>
  The round trip at beta = 1/2, which lies in the interval and is reproduced.
\<close>

theorem beta_round_trip_witness:
  "\<exists>m. beta_to_m_values (1/2) = Finite m \<and> m_values_to_beta m = 1/2"
proof -
  obtain m where m: "beta_to_m_values (1/2) = Finite m"
    "(1/1000) \<le> (1/2::real) \<and> (1/2::real) \<le> (999/1000) \<longrightarrow> m_values_to_beta m = 1/2"
    using beta_round_trip [of "1/2"] by blast
  have "(1/1000) \<le> (1/2::real) \<and> (1/2::real) \<le> (999/1000)" by simp
  with m show ?thesis by blast
qed

text \<open>
  A beta strictly inside (0, 1) that the round trip does not reproduce: 0.0005 is clipped
  to 0.001 on the way in and comes back as 0.001, twice the input.
\<close>

theorem beta_round_trip_counterexample:
  "beta_to_m_values (1/2000) = Finite (log 2 (1/999))
   \<and> m_values_to_beta (log 2 (1/999)) = 1/1000"
proof -
  have c: "clip (1/2000) (1/1000) (999/1000) = 1/1000" by (simp add: clip_def)
  have q: "(1/1000) / (1 - 1/1000) = (1/999::real)" by simp
  have 1: "beta_to_m_values (1/2000) = Finite (log 2 (1/999))"
    using beta_to_m_values_eq [of "1/2000"] unfolding c q .
  have 2: "m_values_to_beta (log 2 (1/999)) = 1/1000"
    using m_values_to_beta_clipped [of "1/2000"] unfolding c q .
  from 1 2 show ?thesis by simp
qed

lemma m_values_differential_finite:
  "m_values_differential beta = Finite (log 2 (clip beta (1/1000) (999/1000) / (1 - clip beta (1/1000) (999/1000))))"
  using beta_to_m_values_eq [of beta] by (simp add: beta_to_m_values_def m_values_differential_def Let_def)

text \<open>
  C8 at the call site \<^verbatim>\<open>perform_pca\<close>: the line does not clip. It adds 1e-6 to the
  denominator, which keeps the division away from zero, but a beta of 0 still reaches the
  logarithm as 0 and the M-value is minus infinity, unlike at the two sibling call sites
  (\<open>beta_to_m_values_eq\<close>, \<open>m_values_differential_finite\<close>).
\<close>

theorem m_values_pca_zero: "m_values_pca 0 = NegInf \<and> \<not> isfinite (m_values_pca 0)"
  by (simp add: m_values_pca_def np_divide_def isfinite_def)

section \<open>Properties of the FDR adjustment and of the PCA counts\<close>












text \<open>
  C6, as the code has it. The number of probes used is \<open>min n_top_cpgs (probe count)\<close>, so
  it never exceeds the probe count; the number of retained components never exceeds 10,
  nor the number of included samples, nor the number of probes used. (The bound is the
  sample count, not the sample count minus 1.)
\<close>

theorem pca_counts:
  "actual_top n_top_cpgs betas = min n_top_cpgs (length (rows betas))
   \<and> actual_top n_top_cpgs betas \<le> length (rows betas)
   \<and> n_components n_top_cpgs betas targets \<le> 10
   \<and> n_components n_top_cpgs betas targets \<le> length (matched_samples betas targets)
   \<and> n_components n_top_cpgs betas targets \<le> actual_top n_top_cpgs betas"
  by (auto simp: actual_top_def n_components_def pca_coords_columns_def min_le_iff_disj)

text \<open>
  Three samples and five probes, no metadata table: all three samples are included and
  three components are retained, one more than the sample count minus 1.
\<close>

theorem pca_components_counterexample:
  "length (matched_samples example_betas_pca None) = 3
   \<and> n_components DEFAULT_N_TOP_CPGS example_betas_pca None = 3"
  by (simp add: n_components_def matched_samples_def find_target_row_def actual_top_def
        pca_coords_columns_def DEFAULT_N_TOP_CPGS_def example_betas_pca_def)

section \<open>Properties of the orchestrator and of the job record\<close>











lemma distinct_unique: "distinct (unique xs)"
  by (simp add: unique_def)





lemma workflow_loop_no_callback:
  "snd (workflow_loop ext cm pd tot None es st s) = s"
  by (induction es arbitrary: st s) (auto simp: Let_def)




































section \<open>Properties of the differential analysis and of the volcano plot\<close>





lemma find_NoneD: "find P xs = None \<Longrightarrow> x \<in> set xs \<Longrightarrow> \<not> P x"
  by (auto simp: find_None_iff)












lemma colour_tiers:
  "(colour thr fct row = ''#E8433A'' \<longleftrightarrow> fst row < thr \<and> fct \<le> \<bar>snd row\<bar>)
   \<and> (colour thr fct row = ''#2560E0'' \<longleftrightarrow> fst row < thr \<and> \<not> fct \<le> \<bar>snd row\<bar>)
   \<and> (colour thr fct row = ''#AAAAAA'' \<longleftrightarrow> \<not> fst row < thr)"
  by (simp add: colour_def)

lemma volcano_error_passthrough:
  assumes "ext_mkdir ext pd = None" "dict_has d ''error''"
  shows "create_volcano_plot ext b t (Some d) cm sn pd fct thr = Inr d"
  using assms by (simp add: create_volcano_plot_def)

lemma volcano_no_recompute:
  "create_volcano_plot ext b t (Some d) cm sn pd fct thr
     = create_volcano_plot (ext\<lparr>ext_ttest_ind := tt\<rparr>) b' t' (Some d) cm' sn pd fct thr"
  by (cases "ext_mkdir ext pd") (simp_all add: create_volcano_plot_def Let_def)

lemma volcano_inline:
  "create_volcano_plot ext b t None cm sn pd fct thr =
     (case ext_mkdir ext pd of
        Some e \<Rightarrow> Inl e
      | None \<Rightarrow> (case differential_analysis ext b t cm (5 / 100) 200 of
                    Inl e \<Rightarrow> Inl e
                  | Inr d \<Rightarrow> create_volcano_plot ext b t (Some d) cm sn pd fct thr))"
  by (simp add: create_volcano_plot_def split: option.splits sum.splits)

lemma volcano_counts:
  assumes "create_volcano_plot ext b t (Some d) cm sn pd fct thr = Inr res" "\<not> dict_has res ''error''"
  shows "dict_keys res = [''comparison'', ''n_highlighted_dmps'', ''fc_threshold'', ''fdr_threshold'', ''plots'']
     \<and> dict_get res ''n_highlighted_dmps'' =
         Some (PInt (int (length (filter (\<lambda>r. fst (row_values r) < thr \<and> fct \<le> \<bar>snd (row_values r)\<bar>)
                                     (top_dmps_rows d)))))"
proof -
  have ne: "\<not> dict_has d ''error''" "top_dmps_rows d \<noteq> []"
    using assms by (auto simp: create_volcano_plot_def Let_def error_payload_def dict_has_def
        split: option.splits if_splits)
  have red: "filter ((\<lambda>c. c = ''#E8433A'') \<circ> (\<lambda>r. colour thr fct (row_values r))) (top_dmps_rows d)
        = filter (\<lambda>r. fst (row_values r) < thr \<and> fct \<le> \<bar>snd (row_values r)\<bar>) (top_dmps_rows d)"
    by (simp add: comp_def colour_tiers)
  show ?thesis
    using assms(1) ne unfolding create_volcano_plot_def Let_def
    by (auto simp: dict_keys_def dict_get_def red split: option.splits if_splits)
qed

lemma stage_volcano_reuses:
  assumes "current_betas st = Some b" "dict_get (results st) ''differential_analysis'' = Some d"
  shows "stage ext cm pd ''create_volcano_plot'' st =
     (case create_volcano_plot ext b (current_targets st) (Some d) cm ''volcano'' pd 1 (5 / 100) of
        Inl e \<Rightarrow> Inl e
      | Inr res \<Rightarrow>
         (case with_plot_files res of
            Inl e \<Rightarrow> Inl e
          | Inr entry \<Rightarrow> Inr (st\<lparr>results := dict_set (results st) ''create_volcano_plot'' entry\<rparr>)))"
  using assms by (simp add: stage_def Let_def)

text \<open>
  C9, as the code has it. \<^verbatim>\<open>_colour\<close> puts a row into exactly one of three tiers: red when
  FDR is below its threshold and the absolute fold change reaches its threshold, blue when
  only the first holds, grey otherwise. A plot payload has the keys \<^verbatim>\<open>comparison\<close>,
  \<^verbatim>\<open>n_highlighted_dmps\<close>, \<^verbatim>\<open>fc_threshold\<close>, \<^verbatim>\<open>fdr_threshold\<close> and \<^verbatim>\<open>plots\<close>, and
  \<^verbatim>\<open>n_highlighted_dmps\<close> is the number of rows in the red tier; the other two tiers are
  not counted. A supplied result with an \<^verbatim>\<open>error\<close> key is returned as it is. With a
  supplied result nothing is recomputed: the outcome does not depend on the matrix, the
  metadata, the mapping or the t-test; without one the function runs
  \<^verbatim>\<open>differential_analysis\<close> first. The orchestrator supplies the ledger entry of
  \<^verbatim>\<open>differential_analysis\<close> when there is one.
\<close>

theorem volcano_plot_contract:
  "(colour thr fct row = ''#E8433A'' \<longleftrightarrow> fst row < thr \<and> fct \<le> \<bar>snd row\<bar>)
   \<and> (colour thr fct row = ''#2560E0'' \<longleftrightarrow> fst row < thr \<and> \<not> fct \<le> \<bar>snd row\<bar>)
   \<and> (colour thr fct row = ''#AAAAAA'' \<longleftrightarrow> \<not> fst row < thr)
   \<and> (create_volcano_plot ext b t (Some d) cm sn pd fct thr = Inr res \<and> \<not> dict_has res ''error'' \<longrightarrow>
        dict_keys res = [''comparison'', ''n_highlighted_dmps'', ''fc_threshold'', ''fdr_threshold'', ''plots'']
        \<and> dict_get res ''n_highlighted_dmps'' =
            Some (PInt (int (length (filter (\<lambda>r. fst (row_values r) < thr \<and> fct \<le> \<bar>snd (row_values r)\<bar>)
                                        (top_dmps_rows d))))))
   \<and> (ext_mkdir ext pd = None \<and> dict_has d ''error'' \<longrightarrow>
        create_volcano_plot ext b t (Some d) cm sn pd fct thr = Inr d)
   \<and> create_volcano_plot ext b t (Some d) cm sn pd fct thr
        = create_volcano_plot (ext\<lparr>ext_ttest_ind := tt\<rparr>) b' t' (Some d) cm' sn pd fct thr
   \<and> create_volcano_plot ext b t None cm sn pd fct thr =
        (case ext_mkdir ext pd of
           Some e \<Rightarrow> Inl e
         | None \<Rightarrow> (case differential_analysis ext b t cm (5 / 100) 200 of
                       Inl e \<Rightarrow> Inl e
                     | Inr d' \<Rightarrow> create_volcano_plot ext b t (Some d') cm sn pd fct thr))
   \<and> (current_betas st = Some b \<and> dict_get (results st) ''differential_analysis'' = Some d \<longrightarrow>
        stage ext cm pd ''create_volcano_plot'' st =
          (case create_volcano_plot ext b (current_targets st) (Some d) cm ''volcano'' pd 1 (5 / 100) of
             Inl e \<Rightarrow> Inl e
           | Inr res' \<Rightarrow>
              (case with_plot_files res' of
                 Inl e \<Rightarrow> Inl e
               | Inr entry \<Rightarrow> Inr (st\<lparr>results := dict_set (results st) ''create_volcano_plot'' entry\<rparr>))))"
proof -
  note c = colour_tiers [of thr fct row]
  have 4: "create_volcano_plot ext b t (Some d) cm sn pd fct thr = Inr res \<and> \<not> dict_has res ''error'' \<longrightarrow>
        dict_keys res = [''comparison'', ''n_highlighted_dmps'', ''fc_threshold'', ''fdr_threshold'', ''plots'']
        \<and> dict_get res ''n_highlighted_dmps'' =
            Some (PInt (int (length (filter (\<lambda>r. fst (row_values r) < thr \<and> fct \<le> \<bar>snd (row_values r)\<bar>)
                                        (top_dmps_rows d)))))"
    using volcano_counts [of ext b t d cm sn pd fct thr res] by blast
  have 5: "ext_mkdir ext pd = None \<and> dict_has d ''error'' \<longrightarrow>
        create_volcano_plot ext b t (Some d) cm sn pd fct thr = Inr d"
    using volcano_error_passthrough [of ext pd d b t cm sn fct thr] by blast
  note 6 = volcano_no_recompute [of ext b t d cm sn pd fct thr tt b' t' cm']
  note 7 = volcano_inline [of ext b t cm sn pd fct thr]
  have 8: "current_betas st = Some b \<and> dict_get (results st) ''differential_analysis'' = Some d \<longrightarrow>
        stage ext cm pd ''create_volcano_plot'' st =
          (case create_volcano_plot ext b (current_targets st) (Some d) cm ''volcano'' pd 1 (5 / 100) of
             Inl e \<Rightarrow> Inl e
           | Inr res' \<Rightarrow>
              (case with_plot_files res' of
                 Inl e \<Rightarrow> Inl e
               | Inr entry \<Rightarrow> Inr (st\<lparr>results := dict_set (results st) ''create_volcano_plot'' entry\<rparr>)))"
    using stage_volcano_reuses [of st b d ext cm pd] by blast
  from c 4 5 6 7 8 show ?thesis by (intro conjI) blast+
qed

lemma example_rows:
  "top_dmps_rows example_diff_blue =
     [dmp_record \<lparr>probe = ''cg1'', log2_fc = 2, t_stat = 9, p_value = 1 / 1000, fdr = 1 / 100\<rparr>,
      dmp_record \<lparr>probe = ''cg2'', log2_fc = 1 / 2, t_stat = 3, p_value = 1 / 100, fdr = 1 / 100\<rparr>]"
  "top_dmps_rows example_diff_grey =
     [dmp_record \<lparr>probe = ''cg1'', log2_fc = 2, t_stat = 9, p_value = 1 / 1000, fdr = 1 / 100\<rparr>,
      dmp_record \<lparr>probe = ''cg2'', log2_fc = 1 / 2, t_stat = 3, p_value = 1 / 100, fdr = 1 / 2\<rparr>]"
  by (simp_all add: top_dmps_rows_def example_diff_blue_def example_diff_grey_def dict_get_def)

lemma row_eval:
  "row_ok (dmp_record r)" "row_values (dmp_record r) = (fdr r, log2_fc r)"
  by (simp_all add: row_ok_def row_values_def dmp_record_def)

lemma example_volcano:
  "create_volcano_plot example_ext example_betas None (Some example_diff_blue) [] ''volcano''
       ''out/plots'' 1 (5 / 100)
     = Inr [(''comparison'', PStr ''WT vs KO''), (''n_highlighted_dmps'', PInt 1),
            (''fc_threshold'', PReal 1), (''fdr_threshold'', PReal (5 / 100)),
            (''plots'', PDict [(''volcano'', PStr ''out/plots/volcano.png'')])]"
  "create_volcano_plot example_ext example_betas None (Some example_diff_grey) [] ''volcano''
       ''out/plots'' 1 (5 / 100)
     = Inr [(''comparison'', PStr ''WT vs KO''), (''n_highlighted_dmps'', PInt 1),
            (''fc_threshold'', PReal 1), (''fdr_threshold'', PReal (5 / 100)),
            (''plots'', PDict [(''volcano'', PStr ''out/plots/volcano.png'')])]"
  by (simp_all add: create_volcano_plot_def example_rows row_eval colour_def Let_def
        example_ext_def path_join_def)
     (simp_all add: example_diff_blue_def example_diff_grey_def dict_has_def dict_get_def)

text \<open>
  Two supplied results whose second probe is in the blue tier in one and in the grey tier
  in the other: the returned payloads are equal, with the red count only, so the counts of
  the other tiers are not returned.
\<close>

theorem volcano_tier_counts_counterexample:
  "create_volcano_plot example_ext example_betas None (Some example_diff_blue) [] ''volcano''
       ''out/plots'' 1 (5 / 100)
     = Inr [(''comparison'', PStr ''WT vs KO''), (''n_highlighted_dmps'', PInt 1),
            (''fc_threshold'', PReal 1), (''fdr_threshold'', PReal (5 / 100)),
            (''plots'', PDict [(''volcano'', PStr ''out/plots/volcano.png'')])]
   \<and> create_volcano_plot example_ext example_betas None (Some example_diff_grey) [] ''volcano''
       ''out/plots'' 1 (5 / 100)
     = create_volcano_plot example_ext example_betas None (Some example_diff_blue) [] ''volcano''
       ''out/plots'' 1 (5 / 100)
   \<and> length (top_dmps_rows example_diff_blue) = 2
   \<and> length (top_dmps_rows example_diff_grey) = 2
   \<and> colour (5 / 100) 1 (row_values (top_dmps_rows example_diff_blue ! 0)) = ''#E8433A''
   \<and> colour (5 / 100) 1 (row_values (top_dmps_rows example_diff_blue ! 1)) = ''#2560E0''
   \<and> colour (5 / 100) 1 (row_values (top_dmps_rows example_diff_grey ! 0)) = ''#E8433A''
   \<and> colour (5 / 100) 1 (row_values (top_dmps_rows example_diff_grey ! 1)) = ''#AAAAAA''"
  using example_volcano by (simp add: example_rows row_eval colour_def)

text \<open>
  The red count of the first of these results, and an error payload passed through.
\<close>

theorem volcano_plot_contract_witness:
  "dict_get [(''comparison'', PStr ''WT vs KO''), (''n_highlighted_dmps'', PInt 1),
            (''fc_threshold'', PReal 1), (''fdr_threshold'', PReal (5 / 100)),
            (''plots'', PDict [(''volcano'', PStr ''out/plots/volcano.png'')])] ''n_highlighted_dmps''
     = Some (PInt (int (length (filter (\<lambda>r. fst (row_values r) < 5 / 100 \<and> 1 \<le> \<bar>snd (row_values r)\<bar>)
                                  (top_dmps_rows example_diff_blue)))))
   \<and> create_volcano_plot example_ext example_betas None
        (Some (error_payload ''differential_analysis requires beta values.'')) [] ''volcano''
        ''out/plots'' 1 (5 / 100)
     = Inr (error_payload ''differential_analysis requires beta values.'')"
proof -
  let ?res = "[(''comparison'', PStr ''WT vs KO''), (''n_highlighted_dmps'', PInt 1),
            (''fc_threshold'', PReal 1), (''fdr_threshold'', PReal (5 / 100)),
            (''plots'', PDict [(''volcano'', PStr ''out/plots/volcano.png'')])]"
  let ?err = "error_payload ''differential_analysis requires beta values.''"
  have h4: "create_volcano_plot example_ext example_betas None (Some example_diff_blue) [] ''volcano''
       ''out/plots'' 1 (5 / 100) = Inr ?res \<and> \<not> dict_has ?res ''error''"
    using example_volcano(1) by (simp add: dict_has_def)
  note t4 = volcano_plot_contract [where ext = example_ext and b = example_betas and t = None
      and d = example_diff_blue and cm = "[]" and sn = "''volcano''" and pd = "''out/plots''"
      and fct = 1 and thr = "5 / 100" and res = ?res,
      THEN conjunct2, THEN conjunct2, THEN conjunct2, THEN conjunct1, rule_format, OF h4]
  have h5: "ext_mkdir example_ext ''out/plots'' = None \<and> dict_has ?err ''error''"
    by (simp add: example_ext_def error_payload_def dict_has_def)
  note t5 = volcano_plot_contract [where ext = example_ext and b = example_betas and t = None
      and d = ?err and cm = "[]" and sn = "''volcano''" and pd = "''out/plots''"
      and fct = 1 and thr = "5 / 100",
      THEN conjunct2, THEN conjunct2, THEN conjunct2, THEN conjunct2, THEN conjunct1,
      rule_format, OF h5]
  from t4 t5 show ?thesis by blast
qed

end
